theory Spec2Isabelle
  imports Complex_Main
begin

section \<open>Python values read from JSON\<close>

text \<open>
  \<^verbatim>\<open>heatmap.py\<close> reads \<^verbatim>\<open>data/houses.geojson\<close> with \<^verbatim>\<open>json.load\<close> and walks the
  resulting Python objects with \<^verbatim>\<open>dict.get\<close>, \<^verbatim>\<open>==\<close>, \<^verbatim>\<open>in\<close>, tuple unpacking,
  truthiness and \<^verbatim>\<open>int()\<close>.  The model keeps every one of these operations, with the
  exception each of them can raise.

  A Python \<^verbatim>\<open>str\<close> is a sequence of Unicode code points, so it is a list of naturals;
  \<open>ustr\<close> embeds an ASCII literal.  A float is a rational, or one of the three
  non-finite values \<^verbatim>\<open>json.load\<close> accepts (\<^verbatim>\<open>Infinity\<close>, \<^verbatim>\<open>-Infinity\<close>, \<^verbatim>\<open>NaN\<close>).
  A dict is the list of its items in insertion order; its keys are pairwise distinct in
  every value \<^verbatim>\<open>json.load\<close> returns.
\<close>

type_synonym pystr = "nat list"

definition ustr :: "string \<Rightarrow> pystr" where
  "ustr s = map of_char s"

datatype pyfloat = Finite rat | PosInf | NegInf | NaN

datatype json =
    JNull
  | JBool bool
  | JInt int
  | JFloat pyfloat
  | JString pystr
  | JArray "json list"
  | JObject "(pystr \<times> json) list"

text \<open>
  The exceptions of the program, all of them subclasses of \<^verbatim>\<open>Exception\<close>.
  \<open>OtherError\<close> stands for any further subclass (a network error of the boundary
  service, a parser error of \<^verbatim>\<open>pandas\<close>), with its message.
\<close>

datatype py_error =
    FileNotFoundError
  | JSONDecodeError
  | KeyError
  | TypeError
  | ValueError
  | AttributeError
  | OverflowError
  | OtherError pystr

definition py_bind :: "py_error + 'a \<Rightarrow> ('a \<Rightarrow> py_error + 'b) \<Rightarrow> py_error + 'b" where
  "py_bind m f = (case m of Inl e \<Rightarrow> Inl e | Inr x \<Rightarrow> f x)"

text \<open>\<^verbatim>\<open>d.get(k, default)\<close>: only a dict has the method.\<close>

definition py_dict_get :: "json \<Rightarrow> pystr \<Rightarrow> json \<Rightarrow> py_error + json" where
  "py_dict_get d k dflt =
     (case d of
        JObject kvs \<Rightarrow> Inr (case map_of kvs k of None \<Rightarrow> dflt | Some v \<Rightarrow> v)
      | _ \<Rightarrow> Inl AttributeError)"

text \<open>\<^verbatim>\<open>d[k]\<close> with a string key: a missing key raises \<^verbatim>\<open>KeyError\<close>, a list or a string
  takes integer indices only, the other values are not subscriptable.\<close>

definition py_getitem :: "json \<Rightarrow> pystr \<Rightarrow> py_error + json" where
  "py_getitem d k =
     (case d of
        JObject kvs \<Rightarrow> (case map_of kvs k of None \<Rightarrow> Inl KeyError | Some v \<Rightarrow> Inr v)
      | _ \<Rightarrow> Inl TypeError)"

text \<open>\<^verbatim>\<open>k in d\<close> for a dict \<open>d\<close>.\<close>

definition py_has_key :: "pystr \<Rightarrow> (pystr \<times> json) list \<Rightarrow> bool" where
  "py_has_key k kvs = (map_of kvs k \<noteq> None)"

text \<open>Iteration (\<^verbatim>\<open>for x in v\<close>, and the right-hand side of an unpacking): a list gives
  its elements, a dict its keys, a string its characters as one-character strings; the
  other values are not iterable.\<close>

fun py_iter :: "json \<Rightarrow> py_error + json list" where
  "py_iter (JArray xs) = Inr xs"
| "py_iter (JObject kvs) = Inr (map (\<lambda>kv. JString (fst kv)) kvs)"
| "py_iter (JString s) = Inr (map (\<lambda>c. JString [c]) s)"
| "py_iter _ = Inl TypeError"

text \<open>\<^verbatim>\<open>a, b = v\<close>: \<^verbatim>\<open>ValueError\<close> unless \<open>v\<close> yields exactly two items.\<close>

definition py_unpack2 :: "json \<Rightarrow> py_error + (json \<times> json)" where
  "py_unpack2 v =
     py_bind (py_iter v) (\<lambda>xs.
       case xs of [a, b] \<Rightarrow> Inr (a, b) | _ \<Rightarrow> Inl ValueError)"

text \<open>Truthiness (\<^verbatim>\<open>if v:\<close>).\<close>

fun truthy :: "json \<Rightarrow> bool" where
  "truthy JNull = False"
| "truthy (JBool b) = b"
| "truthy (JInt n) = (n \<noteq> 0)"
| "truthy (JFloat (Finite r)) = (r \<noteq> 0)"
| "truthy (JFloat _) = True"
| "truthy (JString s) = (s \<noteq> [])"
| "truthy (JArray xs) = (xs \<noteq> [])"
| "truthy (JObject kvs) = (kvs \<noteq> [])"

subsection \<open>\<^verbatim>\<open>int()\<close>\<close>

text \<open>
  \<^verbatim>\<open>int(s)\<close> for a string: surrounding whitespace is stripped, one sign is allowed,
  then decimal digits, with single underscores allowed between digits.  The model reads
  ASCII whitespace (code points 9 to 13 and 32) and ASCII digits; the decimal digits and
  the spaces of other scripts, and the bound recent interpreters put on the number of
  digits, are not modelled.
\<close>

definition is_space :: "nat \<Rightarrow> bool" where
  "is_space c = (c = 32 \<or> (9 \<le> c \<and> c \<le> 13))"

definition is_digit :: "nat \<Rightarrow> bool" where
  "is_digit c = (48 \<le> c \<and> c \<le> 57)"

definition strip :: "pystr \<Rightarrow> pystr" where
  "strip s = rev (dropWhile is_space (rev (dropWhile is_space s)))"

text \<open>\<open>digits_value acc prev_digit s\<close>: the value of the digit string \<open>s\<close> read after the
  digits accumulated in \<open>acc\<close>; \<open>prev_digit\<close> tells whether the previous character was a
  digit, which an underscore and the end of the string both require.\<close>

fun digits_value :: "int \<Rightarrow> bool \<Rightarrow> pystr \<Rightarrow> int option" where
  "digits_value acc prev_digit [] = (if prev_digit then Some acc else None)"
| "digits_value acc prev_digit (c # cs) =
     (if is_digit c then digits_value (acc * 10 + int (c - 48)) True cs
      else if c = 95 \<and> prev_digit then digits_value acc False cs
      else None)"

definition int_of_str :: "pystr \<Rightarrow> int option" where
  "int_of_str s =
     (case strip s of
        [] \<Rightarrow> None
      | c # cs \<Rightarrow>
          if c = 45 then map_option uminus (digits_value 0 False cs)
          else if c = 43 then digits_value 0 False cs
          else digits_value 0 False (c # cs))"

text \<open>\<^verbatim>\<open>int(x)\<close> for a float truncates towards zero.\<close>

definition trunc :: "rat \<Rightarrow> int" where
  "trunc r = (if 0 \<le> r then \<lfloor>r\<rfloor> else \<lceil>r\<rceil>)"

fun py_int :: "json \<Rightarrow> py_error + int" where
  "py_int JNull = Inl TypeError"
| "py_int (JBool b) = Inr (if b then 1 else 0)"
| "py_int (JInt n) = Inr n"
| "py_int (JFloat (Finite r)) = Inr (trunc r)"
| "py_int (JFloat NaN) = Inl ValueError"
| "py_int (JFloat _) = Inl OverflowError"
| "py_int (JString s) = (case int_of_str s of None \<Rightarrow> Inl ValueError | Some n \<Rightarrow> Inr n)"
| "py_int (JArray _) = Inl TypeError"
| "py_int (JObject _) = Inl TypeError"

section \<open>The GeoJSON building parser\<close>

text \<open>One entry of \<^verbatim>\<open>buildings_list\<close>: the list \<^verbatim>\<open>[latitude, longitude, floors * 10]\<close>, with the
  column names \<^verbatim>\<open>lat\<close>, \<^verbatim>\<open>lon\<close>, \<^verbatim>\<open>weight\<close> the script gives it in its data frame.\<close>

record building =
  lat :: json
  lon :: json
  weight :: int

text \<open>Lines 30 to 38: the floor count from the value of \<^verbatim>\<open>building:levels\<close>.  Only
  \<^verbatim>\<open>ValueError\<close> and \<^verbatim>\<open>TypeError\<close> are caught.\<close>

definition floors_of :: "json \<Rightarrow> py_error + int" where
  "floors_of building_levels =
     (if truthy building_levels then
        (case py_int building_levels of
           Inr n \<Rightarrow> Inr n
         | Inl e \<Rightarrow> if e = ValueError \<or> e = TypeError then Inr 1 else Inl e)
      else Inr 1)"

text \<open>The body of the loop, lines 19 to 41: \<open>Inr None\<close> is \<^verbatim>\<open>continue\<close>, \<open>Inr (Some b)\<close>
  is the append of \<open>b\<close>.  The test \<^verbatim>\<open>'coordinates' in geometry\<close> runs only after
  \<^verbatim>\<open>geometry.get\<close> has returned, so on a dict: the case on \<open>geometry\<close> gives its items.\<close>

definition parse_feature :: "json \<Rightarrow> py_error + building option" where
  "parse_feature feature =
     py_bind (py_dict_get feature (ustr ''properties'') (JObject [])) (\<lambda>properties.
     py_bind (py_dict_get feature (ustr ''geometry'') (JObject [])) (\<lambda>geometry.
     py_bind (py_dict_get geometry (ustr ''type'') JNull) (\<lambda>gtype.
       case geometry of
         JObject g \<Rightarrow>
           if gtype = JString (ustr ''Point'') \<and> py_has_key (ustr ''coordinates'') g then
             py_bind (py_getitem geometry (ustr ''coordinates'')) (\<lambda>coordinates.
             py_bind (py_unpack2 coordinates) (\<lambda>(longitude, latitude).
             py_bind (py_dict_get properties (ustr ''building:levels'') JNull) (\<lambda>building_levels.
             py_bind (floors_of building_levels) (\<lambda>floors.
               Inr (Some \<lparr>lat = latitude, lon = longitude, weight = floors * 10\<rparr>)))))
           else Inr None
       | _ \<Rightarrow> Inl AttributeError)))"

fun parse_loop :: "json list \<Rightarrow> building list \<Rightarrow> py_error + building list" where
  "parse_loop [] buildings_list = Inr buildings_list"
| "parse_loop (feature # rest) buildings_list =
     (case parse_feature feature of
        Inl e \<Rightarrow> Inl e
      | Inr None \<Rightarrow> parse_loop rest buildings_list
      | Inr (Some b) \<Rightarrow> parse_loop rest (buildings_list @ [b]))"

text \<open>The argument is what \<^verbatim>\<open>open\<close> and \<^verbatim>\<open>json.load\<close> give for the path: the loaded
  value, or the exception of a missing or malformed file.\<close>

definition parse_geojson_buildings :: "py_error + json \<Rightarrow> py_error + building list" where
  "parse_geojson_buildings file =
     py_bind file (\<lambda>geojson_data.
     py_bind (py_getitem geojson_data (ustr ''features'')) (\<lambda>fs.
     py_bind (py_iter fs) (\<lambda>features.
       parse_loop features [])))"

section \<open>The boundary resolver\<close>

text \<open>
  \<^verbatim>\<open>ox.geometries_from_place\<close> is the external service: for a place name it returns a
  table of geometries or raises.  A row carries the two attributes the filter reads (a
  missing value is \<open>None\<close>) and its geometry; the table records which of the two
  columns it has, since \<^verbatim>\<open>polygon_city['name']\<close> raises \<^verbatim>\<open>KeyError\<close> on a table
  without the column.
\<close>

datatype shape = PointShape rat rat | Polygon "(rat \<times> rat) list"

record osm_row =
  name :: "pystr option"
  admin_level :: "pystr option"
  geometry :: shape

record geo_frame =
  has_name :: bool
  has_admin_level :: bool
  rows :: "osm_row list"

text \<open>Every \<^verbatim>\<open>print\<close> of the script is one notice on the console.\<close>

datatype notice =
    SearchingBoundary pystr
  | PolygonsFound nat
  | PolygonsNotFound
  | BoundaryError py_error
  | BuildingsProcessed nat
  | MaxWeightIs "int option"
  | FetchingBoundary
  | BoundaryAdded
  | BranchesAdded
  | BranchesNotFound
  | BranchesError py_error
  | CompetitorsAdded
  | CompetitorsNotFound
  | CompetitorsError py_error
  | MapSaved
  | ShowingBoundary
  | BoundaryMapSaved
  | SettingsSummary

text \<open>\<^verbatim>\<open>Series.str.contains(pat, na=False)\<close> for a pattern without regular-expression
  operators: \<open>pat\<close> occurs in the string; a missing value gives \<^verbatim>\<open>False\<close>.\<close>

fun contains :: "pystr \<Rightarrow> pystr \<Rightarrow> bool" where
  "contains pat [] = (pat = [])"
| "contains pat (c # cs) = (take (length pat) (c # cs) = pat \<or> contains pat cs)"

definition str_contains :: "pystr \<Rightarrow> pystr option \<Rightarrow> bool" where
  "str_contains pat v = (case v of None \<Rightarrow> False | Some s \<Rightarrow> contains pat s)"

definition nizhny_novgorod_ru :: pystr where
  "nizhny_novgorod_ru =
     [1053, 1080, 1078, 1085, 1080, 1081, 32, 1053, 1086, 1074, 1075, 1086, 1088, 1086, 1076]"

definition nizhny_novgorod_bounds :: "(rat \<times> rat) list" where
  "nizhny_novgorod_bounds =
     [(5620 / 100, 4380 / 100),
      (5620 / 100, 4410 / 100),
      (5640 / 100, 4410 / 100),
      (5640 / 100, 4380 / 100),
      (5620 / 100, 4380 / 100)]"

text \<open>The hand-made frame: the name is \<^verbatim>\<open>Nizhny Novgorod (manual)\<close> in Russian.\<close>

definition manual_polygon :: geo_frame where
  "manual_polygon =
     \<lparr>has_name = True, has_admin_level = False,
      rows = [\<lparr>name = Some (nizhny_novgorod_ru @ [32, 40, 1088, 1091, 1095, 1085, 1086, 1081, 41]),
               admin_level = None,
               geometry = Polygon nizhny_novgorod_bounds\<rparr>]\<rparr>"

definition row_matches :: "osm_row \<Rightarrow> bool" where
  "row_matches r =
     (str_contains nizhny_novgorod_ru (name r)
      \<or> str_contains (ustr ''Nizhny Novgorod'') (name r)
      \<or> admin_level r = Some (ustr ''8'')
      \<or> admin_level r = Some (ustr ''6''))"

text \<open>The body of the \<^verbatim>\<open>try\<close>, after the first \<^verbatim>\<open>print\<close>.\<close>

definition resolve_boundary ::
  "pystr \<Rightarrow> (pystr \<Rightarrow> py_error + geo_frame) \<Rightarrow> py_error + (notice list \<times> geo_frame)" where
  "resolve_boundary city_name geometries_from_place =
     py_bind (geometries_from_place city_name) (\<lambda>polygon_city.
       if \<not> has_name polygon_city \<or> \<not> has_admin_level polygon_city then Inl KeyError
       else
         let polygon_filtered = polygon_city\<lparr>rows := filter row_matches (rows polygon_city)\<rparr>
         in if length (rows polygon_filtered) > 0
            then Inr ([PolygonsFound (length (rows polygon_filtered))], polygon_filtered)
            else Inr ([PolygonsNotFound], manual_polygon))"

text \<open>\<^verbatim>\<open>get_city_boundary\<close>: what it prints, and what it returns (\<open>None\<close> is Python's
  \<^verbatim>\<open>None\<close>).\<close>

definition get_city_boundary ::
  "pystr \<Rightarrow> (pystr \<Rightarrow> py_error + geo_frame) \<Rightarrow> notice list \<times> geo_frame option" where
  "get_city_boundary city_name geometries_from_place =
     (case resolve_boundary city_name geometries_from_place of
        Inr (printed, frame) \<Rightarrow> (SearchingBoundary city_name # printed, Some frame)
      | Inl e \<Rightarrow> ([SearchingBoundary city_name, BoundaryError e], None))"

section \<open>The script\<close>



record heat_map =
  heat_data :: "building list"
  min_opacity :: rat
  max_val :: "rat option"
  radius :: nat
  blur :: nat
  max_zoom :: nat
  gradient :: "(rat \<times> pystr) list"





text \<open>What the script reads: the buildings file as loaded, the boundary service, and the
  two tables \<^verbatim>\<open>pd.read_csv\<close> returns (or the exception it raises).  A row of a table
  maps the column names to the cells.\<close>

type_synonym csv_row = "(pystr \<times> json) list"

record env =
  houses_file :: "py_error + json"
  geometries_from_place :: "pystr \<Rightarrow> py_error + geo_frame"
  branches_csv :: "py_error + csv_row list"
  competitors_csv :: "py_error + csv_row list"

text \<open>\<^verbatim>\<open>df_buildings['weight'].max()\<close>: \<open>None\<close> is the NaN of an empty column.\<close>

definition max_weight :: "building list \<Rightarrow> int option" where
  "max_weight buildings_data =
     (case map weight buildings_data of
        [] \<Rightarrow> None
      | w # ws \<Rightarrow> Some (fold max ws w))"

definition hm :: "building list \<Rightarrow> heat_map" where
  "hm buildings_data =
     \<lparr>heat_data = buildings_data,
      min_opacity = 3 / 10,
      max_val = map_option (\<lambda>w. of_int w * (4 / 10)) (max_weight buildings_data),
      radius = 8,
      blur = 10,
      max_zoom = 18,
      gradient =
        [(1 / 10, ustr ''blue''), (2 / 10, ustr ''blue''),
         (3 / 10, ustr ''lime''), (4 / 10, ustr ''lime''),
         (5 / 10, ustr ''yellow''), (6 / 10, ustr ''yellow''),
         (7 / 10, ustr ''orange''), (8 / 10, ustr ''orange''),
         (9 / 10, ustr ''red''), (1, ustr ''red'')]\<rparr>"






definition city_query :: pystr where
  "city_query = nizhny_novgorod_ru @ [44, 32, 1056, 1086, 1089, 1089, 1080, 1103]"











section \<open>Vocabulary of the properties\<close>

text \<open>The features the loop of the parser visits: \<^verbatim>\<open>geojson_data['features']\<close>, iterated.\<close>

definition features_of :: "json \<Rightarrow> py_error + json list" where
  "features_of geojson_data = py_bind (py_getitem geojson_data (ustr ''features'')) py_iter"

text \<open>A feature has a Point geometry when its \<^verbatim>\<open>geometry\<close> member is an object whose
  \<^verbatim>\<open>type\<close> is the string \<^verbatim>\<open>Point\<close>.\<close>

definition geometry_is_point :: "json \<Rightarrow> bool" where
  "geometry_is_point feature =
     (case feature of
        JObject kvs \<Rightarrow>
          (case map_of kvs (ustr ''geometry'') of
             Some (JObject g) \<Rightarrow> map_of g (ustr ''type'') = Some (JString (ustr ''Point''))
           | _ \<Rightarrow> False)
      | _ \<Rightarrow> False)"

text \<open>The \<^verbatim>\<open>coordinates\<close> member of a feature with a Point geometry, when it has one.\<close>

definition point_coordinates :: "json \<Rightarrow> json option" where
  "point_coordinates feature =
     (case feature of
        JObject kvs \<Rightarrow>
          (case map_of kvs (ustr ''geometry'') of
             Some (JObject g) \<Rightarrow>
               if map_of g (ustr ''type'') = Some (JString (ustr ''Point''))
               then map_of g (ustr ''coordinates'') else None
           | _ \<Rightarrow> None)
      | _ \<Rightarrow> None)"

text \<open>The value of \<^verbatim>\<open>building:levels\<close> the parser reads for a feature whose
  \<^verbatim>\<open>properties\<close> member is an object or is absent: \<open>JNull\<close> when the key is absent.\<close>

definition building_levels :: "json \<Rightarrow> json option" where
  "building_levels feature =
     (case py_dict_get feature (ustr ''properties'') (JObject []) of
        Inr (JObject props) \<Rightarrow>
          Some (case map_of props (ustr ''building:levels'') of None \<Rightarrow> JNull | Some v \<Rightarrow> v)
      | _ \<Rightarrow> None)"

text \<open>What one feature contributes to the output when the loop body returns.\<close>

definition emitted :: "json \<Rightarrow> building option" where
  "emitted feature = (case parse_feature feature of Inr r \<Rightarrow> r | Inl e \<Rightarrow> None)"





subsection \<open>Sample inputs\<close>

definition point_feature :: "json \<Rightarrow> json \<Rightarrow> json" where
  "point_feature coordinates levels =
     JObject
       [(ustr ''type'', JString (ustr ''Feature'')),
        (ustr ''properties'', JObject [(ustr ''building:levels'', levels)]),
        (ustr ''geometry'',
           JObject [(ustr ''type'', JString (ustr ''Point'')),
                    (ustr ''coordinates'', coordinates)])]"

definition feature_collection :: "json list \<Rightarrow> json" where
  "feature_collection fs =
     JObject [(ustr ''type'', JString (ustr ''FeatureCollection'')),
              (ustr ''features'', JArray fs)]"

text \<open>A Point geometry with no \<^verbatim>\<open>coordinates\<close> member, and a feature whose geometry is
  \<^verbatim>\<open>null\<close> (an unlocated feature of GeoJSON).\<close>

definition point_without_coordinates :: json where
  "point_without_coordinates =
     JObject
       [(ustr ''type'', JString (ustr ''Feature'')),
        (ustr ''properties'', JObject []),
        (ustr ''geometry'', JObject [(ustr ''type'', JString (ustr ''Point''))])]"

definition unlocated_feature :: json where
  "unlocated_feature =
     JObject
       [(ustr ''type'', JString (ustr ''Feature'')),
        (ustr ''properties'', JObject []),
        (ustr ''geometry'', JNull)]"

definition line_feature :: json where
  "line_feature =
     JObject
       [(ustr ''type'', JString (ustr ''Feature'')),
        (ustr ''properties'', JObject []),
        (ustr ''geometry'',
           JObject [(ustr ''type'', JString (ustr ''LineString'')),
                    (ustr ''coordinates'', JArray [JArray [JInt 44, JInt 56], JArray [JInt 45, JInt 57]])])]"

text \<open>A boundary service that raises, and one that finds nothing.\<close>

definition service_down :: "pystr \<Rightarrow> py_error + geo_frame" where
  "service_down place = Inl (OtherError (ustr ''connection refused''))"

definition service_empty :: "pystr \<Rightarrow> py_error + geo_frame" where
  "service_empty place = Inr \<lparr>has_name = True, has_admin_level = True, rows = []\<rparr>"






section \<open>The parser: the loop and its body\<close>

lemma ustr_eq_iff [simp]: "ustr a = ustr b \<longleftrightarrow> a = b"
  unfolding ustr_def by (simp add: inj_map_eq_map inj_on_def)

lemma py_bind_Inl [simp]: "py_bind (Inl e) f = Inl e"
  by (simp add: py_bind_def)

lemma py_bind_Inr [simp]: "py_bind (Inr x) f = f x"
  by (simp add: py_bind_def)

lemma py_bind_eq_Inr: "py_bind m f = Inr y \<longleftrightarrow> (\<exists>x. m = Inr x \<and> f x = Inr y)"
  by (cases m) simp_all

lemma parse_loop_acc:
  "parse_loop fs acc = Inr out \<longleftrightarrow> (\<exists>ys. parse_loop fs [] = Inr ys \<and> out = acc @ ys)"
proof (induction fs arbitrary: acc out)
  case Nil
  show ?case by auto
next
  case (Cons f fs)
  show ?case
  proof (cases "parse_feature f")
    case (Inl e)
    then show ?thesis by simp
  next
    case (Inr r)
    show ?thesis
    proof (cases r)
      case None
      with Inr Cons.IH [of acc out] show ?thesis by simp
    next
      case (Some b)
      have "parse_loop fs (acc @ [b]) = Inr out \<longleftrightarrow>
            (\<exists>zs. parse_loop fs [] = Inr zs \<and> out = (acc @ [b]) @ zs)"
        by (rule Cons.IH)
      moreover have "parse_loop fs [b] = Inr ys \<longleftrightarrow>
            (\<exists>zs. parse_loop fs [] = Inr zs \<and> ys = [b] @ zs)" for ys
        by (rule Cons.IH)
      ultimately show ?thesis using Inr Some by auto
    qed
  qed
qed

lemma parse_loop_Inr:
  "parse_loop fs [] = Inr out \<Longrightarrow>
     out = List.map_filter emitted fs \<and> (\<forall>f\<in>set fs. \<exists>r. parse_feature f = Inr r)"
proof (induction fs arbitrary: out)
  case Nil
  then show ?case by (simp add: List.map_filter_simps)
next
  case (Cons f fs)
  show ?case
  proof (cases "parse_feature f")
    case (Inl e)
    with Cons.prems show ?thesis by simp
  next
    case (Inr r)
    show ?thesis
    proof (cases r)
      case None
      with Inr Cons show ?thesis by (simp add: List.map_filter_simps emitted_def)
    next
      case (Some b)
      with Inr Cons.prems have "parse_loop fs [b] = Inr out" by simp
      then obtain ys where ys: "parse_loop fs [] = Inr ys" "out = [b] @ ys"
        using parse_loop_acc [of fs "[b]" out] by blast
      with Cons.IH [OF ys(1)] Inr Some show ?thesis
        by (simp add: List.map_filter_simps emitted_def)
    qed
  qed
qed

lemma parse_geojson_buildings_Inr:
  assumes "parse_geojson_buildings (Inr geojson_data) = Inr out"
  shows "\<exists>features. features_of geojson_data = Inr features \<and> parse_loop features [] = Inr out"
  using assms unfolding parse_geojson_buildings_def features_of_def
  by (auto simp: py_bind_eq_Inr)

lemma floors_of_Inr:
  "floors_of v = Inr n \<longleftrightarrow>
     (truthy v \<and> py_int v = Inr n) \<or>
     (n = 1 \<and> (\<not> truthy v \<or> py_int v = Inl ValueError \<or> py_int v = Inl TypeError))"
  by (cases "py_int v") (auto simp: floors_of_def)

lemma parse_feature_point:
  assumes "point_coordinates f = Some coords"
  shows "parse_feature f =
           py_bind (py_unpack2 coords) (\<lambda>(longitude, latitude).
           py_bind (py_bind (py_dict_get f (ustr ''properties'') (JObject []))
                      (\<lambda>properties. py_dict_get properties (ustr ''building:levels'') JNull))
             (\<lambda>building_levels.
           py_bind (floors_of building_levels) (\<lambda>floors.
             Inr (Some \<lparr>lat = latitude, lon = longitude, weight = floors * 10\<rparr>))))"
  using assms
  by (auto simp: point_coordinates_def parse_feature_def py_dict_get_def py_getitem_def
      py_has_key_def split: json.splits option.splits if_splits)

lemma parse_feature_skip:
  assumes "point_coordinates f = None" "parse_feature f = Inr r"
  shows "r = None"
  using assms
  by (auto simp: point_coordinates_def parse_feature_def py_dict_get_def py_getitem_def
      py_has_key_def split: json.splits option.splits if_splits)

lemma parse_feature_None:
  assumes "parse_feature f = Inr None"
  shows "point_coordinates f = None"
proof (cases "point_coordinates f")
  case None
  then show ?thesis .
next
  case (Some coords)
  from assms show ?thesis
    unfolding parse_feature_point [OF Some]
    by (auto simp: py_bind_eq_Inr)
qed

lemma building_levels_eq:
  "building_levels f = Some v \<longleftrightarrow>
     py_bind (py_dict_get f (ustr ''properties'') (JObject []))
       (\<lambda>properties. py_dict_get properties (ustr ''building:levels'') JNull) = Inr v
     "
  by (auto simp: building_levels_def py_dict_get_def split: json.splits option.splits sum.splits)

lemma parse_feature_Some:
  assumes "parse_feature f = Inr (Some b)"
  shows "\<exists>coords v n. point_coordinates f = Some coords
           \<and> py_unpack2 coords = Inr (lon b, lat b)
           \<and> building_levels f = Some v \<and> floors_of v = Inr n \<and> weight b = n * 10"
proof (cases "point_coordinates f")
  case None
  with assms parse_feature_skip show ?thesis by blast
next
  case (Some coords)
  from assms show ?thesis
    unfolding parse_feature_point [OF Some] building_levels_eq
    by (auto simp: py_bind_eq_Inr Some)
qed


section \<open>Evaluation and helper facts\<close>

lemmas eval_defs = parse_geojson_buildings_def parse_feature_def py_dict_get_def py_getitem_def
  py_has_key_def py_unpack2_def floors_of_def int_of_str_def strip_def is_space_def is_digit_def
  point_feature_def feature_collection_def ustr_def


lemma point_coordinates_point_feature: "point_coordinates (point_feature c l) = Some c"
  by (simp add: point_coordinates_def point_feature_def)

lemma building_levels_point_feature: "building_levels (point_feature c l) = Some l"
  by (simp add: building_levels_def point_feature_def py_dict_get_def)

lemma features_of_collection: "features_of (feature_collection fs) = Inr fs"
  by (simp add: features_of_def feature_collection_def py_getitem_def)

lemma py_unpack2_JArray:
  "py_unpack2 (JArray cs) = (case cs of [a, b] \<Rightarrow> Inr (a, b) | _ \<Rightarrow> Inl ValueError)"
  by (simp add: py_unpack2_def)

lemma py_unpack2_wrong_length: "length cs \<noteq> 2 \<Longrightarrow> py_unpack2 (JArray cs) = Inl ValueError"
  by (auto simp: py_unpack2_JArray split: list.splits)

lemma point_coordinates_is_point: "point_coordinates f = Some c \<Longrightarrow> geometry_is_point f"
  by (auto simp: point_coordinates_def geometry_is_point_def
      split: json.splits option.splits if_splits)

lemma length_map_filter: "length (List.map_filter g xs) = length (filter (\<lambda>x. g x \<noteq> None) xs)"
  by (induction xs) (auto simp: List.map_filter_simps split: option.splits)

lemma emitted_None_iff:
  assumes "parse_feature f = Inr r"
  shows "emitted f = None \<longleftrightarrow> point_coordinates f = None"
  using assms parse_feature_None [of f] parse_feature_skip [of f r]
  by (auto simp: emitted_def)




lemma max_weight_Max:
  assumes "bs \<noteq> []"
  shows "max_weight bs = Some (Max (weight ` set bs))"
proof -
  from assms obtain b rest where bs: "bs = b # rest" by (cases bs) auto
  have "Max (set (weight b # map weight rest)) = fold max (map weight rest) (weight b)"
    by (rule Max.set_eq_fold)
  then show ?thesis by (simp add: max_weight_def bs)
qed

lemma Max_weight_update:
  assumes "i < length bs"
    and "\<forall>j<length bs. j \<noteq> i \<longrightarrow> weight (bs ! j) \<le> w'"
  shows "Max (weight ` set (bs[i := (bs ! i)\<lparr>weight := w'\<rparr>])) = w'"
proof (rule Max_eqI)
  let ?bs' = "bs[i := (bs ! i)\<lparr>weight := w'\<rparr>]"
  show "finite (weight ` set ?bs')" by simp
  show "y \<le> w'" if "y \<in> weight ` set ?bs'" for y
  proof -
    from that obtain j where j: "j < length bs" "y = weight (?bs' ! j)"
      by (auto simp: in_set_conv_nth)
    show ?thesis
    proof (cases "j = i")
      case True
      with j assms(1) show ?thesis by simp
    next
      case False
      with j assms show ?thesis by simp
    qed
  qed
  have "?bs' ! i \<in> set ?bs'" using assms(1) by (intro nth_mem) simp
  then show "w' \<in> weight ` set ?bs'" using assms(1) by force
qed

section \<open>Claim C1: an exception of the boundary service\<close>

text \<open>Claim C1, as amended.  For every city name, if the external boundary service raises an
  exception, \<open>get_city_boundary\<close> catches it, prints it and returns \<^verbatim>\<open>None\<close>: the
  exception does not propagate (the function returns a value), and the result is not the
  fallback rectangle.\<close>

theorem get_city_boundary_on_exception:
  assumes "service city_name = Inl x"
  shows "get_city_boundary city_name service
           = ([SearchingBoundary city_name, BoundaryError x], None)"
  using assms by (simp add: get_city_boundary_def resolve_boundary_def)

text \<open>The service that refuses the connection.\<close>

theorem get_city_boundary_on_exception_witness:
  "get_city_boundary city_query service_down
     = ([SearchingBoundary city_query, BoundaryError (OtherError (ustr ''connection refused''))],
        None)"
  using get_city_boundary_on_exception [of service_down city_query]
  by (simp add: service_down_def)

text \<open>Claim C1 as stated asks for the five-point fallback rectangle, the result of a lookup
  that finds nothing.  With the service down the result is \<^verbatim>\<open>None\<close>; the rectangle is
  what the empty lookup gives.\<close>

theorem service_down_counterexample:
  "snd (get_city_boundary city_query service_down) = None
   \<and> snd (get_city_boundary city_query service_down) \<noteq> Some manual_polygon
   \<and> snd (get_city_boundary city_query service_empty) = Some manual_polygon
   \<and> length nizhny_novgorod_bounds = 5"
  by (simp add: get_city_boundary_def resolve_boundary_def service_down_def service_empty_def
      nizhny_novgorod_bounds_def)

section \<open>Claim C2: the pages written when the lookup raises\<close>



section \<open>Claim C3: the weight from the floor count\<close>

text \<open>Claim C3, as amended.  For a feature with a Point geometry whose coordinates unpack
  into two values: if \<^verbatim>\<open>building:levels\<close> is truthy and \<^verbatim>\<open>int()\<close> converts it to
  \<open>n\<close>, the weight is \<open>10 * n\<close>; if it is missing, falsy (\<^verbatim>\<open>None\<close>, \<^verbatim>\<open>0\<close>,
  \<^verbatim>\<open>0.0\<close>, \<^verbatim>\<open>False\<close>, an empty string, list or dict) or \<^verbatim>\<open>int()\<close> raises
  \<^verbatim>\<open>ValueError\<close> or \<^verbatim>\<open>TypeError\<close>, the weight is \<open>10\<close> (the case \<open>n = 1\<close>).\<close>

theorem weight_from_levels:
  assumes "point_coordinates f = Some coords"
    and "py_unpack2 coords = Inr (x, y)"
    and "building_levels f = Some v"
    and "(truthy v \<and> py_int v = Inr n) \<or>
         (n = 1 \<and> (\<not> truthy v \<or> py_int v = Inl ValueError \<or> py_int v = Inl TypeError))"
  shows "parse_feature f = Inr (Some \<lparr>lat = y, lon = x, weight = 10 * n\<rparr>)"
proof -
  from assms(4) have "floors_of v = Inr n" by (simp only: floors_of_Inr)
  moreover from assms(3) have
    "py_bind (py_dict_get f (ustr ''properties'') (JObject []))
       (\<lambda>properties. py_dict_get properties (ustr ''building:levels'') JNull) = Inr v"
    by (simp only: building_levels_eq)
  ultimately show ?thesis
    unfolding parse_feature_point [OF assms(1)] using assms(2) by (simp add: mult.commute)
qed

text \<open>Three floors, a word that is no number, and no floor count.\<close>

theorem weight_from_levels_witness:
  "parse_feature (point_feature (JArray [JInt 44, JInt 56]) (JString (ustr ''3'')))
     = Inr (Some \<lparr>lat = JInt 56, lon = JInt 44, weight = 10 * 3\<rparr>)
   \<and> parse_feature (point_feature (JArray [JInt 44, JInt 56]) (JString (ustr ''two'')))
     = Inr (Some \<lparr>lat = JInt 56, lon = JInt 44, weight = 10 * 1\<rparr>)
   \<and> parse_feature (point_feature (JArray [JInt 44, JInt 56]) JNull)
     = Inr (Some \<lparr>lat = JInt 56, lon = JInt 44, weight = 10 * 1\<rparr>)"
proof -
  have u: "py_unpack2 (JArray [JInt 44, JInt 56]) = Inr (JInt 44, JInt 56)"
    by (simp add: py_unpack2_def)
  have a: "truthy (JString (ustr ''3'')) \<and> py_int (JString (ustr ''3'')) = Inr 3"
    by (simp add: int_of_str_def strip_def is_space_def is_digit_def ustr_def)
  have b: "py_int (JString (ustr ''two'')) = Inl ValueError"
    by (simp add: int_of_str_def strip_def is_space_def is_digit_def ustr_def)
  have c: "\<not> truthy JNull" by simp
  note at_point = weight_from_levels
    [OF point_coordinates_point_feature u building_levels_point_feature]
  show ?thesis
    using at_point [of "JString (ustr ''3'')" 3] at_point [of "JString (ustr ''two'')" 1]
      at_point [of JNull 1] a b c
    by simp
qed

text \<open>Claim C3 as stated gives a value parseable as the integer \<open>N\<close> the weight
  \<open>10 * N\<close>.  The JSON number \<open>0\<close> is parseable, as \<open>0\<close>, but it is falsy: the
  guard \<^verbatim>\<open>if building_levels:\<close> treats it as missing and the weight is \<open>10\<close>.\<close>

theorem zero_levels_counterexample:
  "py_int (JInt 0) = Inr 0
   \<and> parse_feature (point_feature (JArray [JInt 44, JInt 56]) (JInt 0))
       = Inr (Some \<lparr>lat = JInt 56, lon = JInt 44, weight = 10\<rparr>)
   \<and> (10::int) \<noteq> 10 * 0"
  by (simp add: eval_defs)

section \<open>Claim C4: the lower bound of the weight\<close>

text \<open>Claim C4, as amended.  When the parser returns, every building of its output has a
  weight of at least \<open>10\<close>, provided no Point feature carries a truthy
  \<^verbatim>\<open>building:levels\<close> that \<^verbatim>\<open>int()\<close> converts to an integer below \<open>1\<close>.\<close>

theorem weight_at_least_ten:
  assumes "parse_geojson_buildings (Inr geojson_data) = Inr out"
    and "features_of geojson_data = Inr features"
    and "\<forall>f\<in>set features. \<forall>v n.
           point_coordinates f \<noteq> None \<longrightarrow> building_levels f = Some v \<longrightarrow> truthy v \<longrightarrow>
           py_int v = Inr n \<longrightarrow> 1 \<le> n"
  shows "\<forall>b\<in>set out. 10 \<le> weight b"
proof
  fix b assume b: "b \<in> set out"
  from assms(1) obtain fs where
    "features_of geojson_data = Inr fs" and "parse_loop fs [] = Inr out"
    using parse_geojson_buildings_Inr by blast
  with assms(2) have loop: "parse_loop features [] = Inr out" by simp
  from parse_loop_Inr [OF loop] have
    out: "out = List.map_filter emitted features"
    and ret: "\<forall>f\<in>set features. \<exists>r. parse_feature f = Inr r" by simp_all
  from b out obtain f where f: "f \<in> set features" "emitted f = Some b"
    by (auto simp: List.map_filter_def)
  with ret have "parse_feature f = Inr (Some b)"
    by (auto simp: emitted_def)
  from parse_feature_Some [OF this] obtain coords v n where
    pc: "point_coordinates f = Some coords" and bl: "building_levels f = Some v"
    and fl: "floors_of v = Inr n" and w: "weight b = n * 10" by blast
  from fl have "1 \<le> n"
    unfolding floors_of_Inr using assms(3) f(1) pc bl by auto
  with w show "10 \<le> weight b" by simp
qed

text \<open>Three floors and an unparseable floor count.\<close>

theorem weight_at_least_ten_witness:
  "10 \<le> weight \<lparr>lat = JInt 56, lon = JInt 44, weight = 30\<rparr>
   \<and> 10 \<le> weight \<lparr>lat = JInt 57, lon = JInt 43, weight = 10\<rparr>
   \<and> parse_geojson_buildings
     (Inr (feature_collection
        [point_feature (JArray [JInt 44, JInt 56]) (JString (ustr ''3'')),
         point_feature (JArray [JInt 43, JInt 57]) (JString (ustr ''many''))]))
     = Inr [\<lparr>lat = JInt 56, lon = JInt 44, weight = 30\<rparr>,
            \<lparr>lat = JInt 57, lon = JInt 43, weight = 10\<rparr>]"
proof -
  have p: "parse_geojson_buildings
     (Inr (feature_collection
        [point_feature (JArray [JInt 44, JInt 56]) (JString (ustr ''3'')),
         point_feature (JArray [JInt 43, JInt 57]) (JString (ustr ''many''))]))
     = Inr [\<lparr>lat = JInt 56, lon = JInt 44, weight = 30\<rparr>,
            \<lparr>lat = JInt 57, lon = JInt 43, weight = 10\<rparr>]"
    by (simp add: eval_defs)
  have h: "\<forall>f\<in>set [point_feature (JArray [JInt 44, JInt 56]) (JString (ustr ''3'')),
         point_feature (JArray [JInt 43, JInt 57]) (JString (ustr ''many''))]. \<forall>v n.
           point_coordinates f \<noteq> None \<longrightarrow> building_levels f = Some v \<longrightarrow> truthy v \<longrightarrow>
           py_int v = Inr n \<longrightarrow> 1 \<le> n"
    by (simp add: building_levels_point_feature int_of_str_def strip_def is_space_def
        is_digit_def ustr_def)
  from weight_at_least_ten [OF p features_of_collection h] p show ?thesis by simp
qed

text \<open>Claim C4 as stated has no proviso.  The parser accepts the floor count \<^verbatim>\<open>"0"\<close>
  and gives the building the weight \<open>0\<close>.\<close>

theorem zero_floors_counterexample:
  "parse_geojson_buildings
     (Inr (feature_collection
        [point_feature (JArray [JInt 44, JInt 56]) (JString (ustr ''0''))]))
     = Inr [\<lparr>lat = JInt 56, lon = JInt 44, weight = 0\<rparr>]
   \<and> \<not> (10::int) \<le> 0"
  by (simp add: eval_defs)

section \<open>Claim C5: the order of the layers\<close>




section \<open>Claim C6: the maximum display value of the heatmap\<close>

text \<open>Claim C6, as amended.  For every non-empty list of buildings the \<^verbatim>\<open>max_val\<close> of the
  heatmap is \<open>0.4\<close> times the maximum weight (as an exact product).  Replacing the
  weight \<open>w\<close> of a building that holds the maximum by \<open>w' = q * w\<close>, that is
  multiplying its floor count by \<open>q\<close>, multiplies the value by \<open>q\<close> when no other
  building is heavier than \<open>w'\<close>: when the building is still the maximum.\<close>

theorem heat_max_val_scales:
  assumes "bs \<noteq> []"
  shows "max_val (hm bs) = Some (rat_of_int (Max (weight ` set bs)) * (4 / 10))
    \<and> (\<forall>i w' q.
          i < length bs \<longrightarrow> weight (bs ! i) = Max (weight ` set bs) \<longrightarrow>
          (\<forall>j<length bs. j \<noteq> i \<longrightarrow> weight (bs ! j) \<le> w') \<longrightarrow>
          rat_of_int w' = q * rat_of_int (weight (bs ! i)) \<longrightarrow>
          max_val (hm (bs[i := (bs ! i)\<lparr>weight := w'\<rparr>]))
            = Some (q * (rat_of_int (Max (weight ` set bs)) * (4 / 10))))"
proof (intro conjI allI impI)
  show "max_val (hm bs) = Some (rat_of_int (Max (weight ` set bs)) * (4 / 10))"
    by (simp add: hm_def max_weight_Max [OF assms])
next
  fix i w' q
  assume i: "i < length bs" and mx: "weight (bs ! i) = Max (weight ` set bs)"
    and others: "\<forall>j<length bs. j \<noteq> i \<longrightarrow> weight (bs ! j) \<le> w'"
    and q: "rat_of_int w' = q * rat_of_int (weight (bs ! i))"
  let ?bs' = "bs[i := (bs ! i)\<lparr>weight := w'\<rparr>]"
  from assms have "?bs' \<noteq> []" by simp
  from max_weight_Max [OF this] Max_weight_update [OF i others]
  have "max_weight ?bs' = Some w'" by simp
  then show "max_val (hm ?bs') = Some (q * (rat_of_int (Max (weight ` set bs)) * (4 / 10)))"
    using q mx by (simp add: hm_def)
qed

text \<open>Three floors doubled to six, beside a building of two floors.\<close>

theorem heat_max_val_scales_witness:
  "max_val (hm [\<lparr>lat = JInt 56, lon = JInt 44, weight = 30\<rparr>,
                \<lparr>lat = JInt 57, lon = JInt 43, weight = 20\<rparr>]) = Some 12
   \<and> max_val (hm [\<lparr>lat = JInt 56, lon = JInt 44, weight = 60\<rparr>,
                  \<lparr>lat = JInt 57, lon = JInt 43, weight = 20\<rparr>]) = Some (2 * 12)"
proof -
  let ?bs = "[\<lparr>lat = JInt 56, lon = JInt 44, weight = 30\<rparr>,
              \<lparr>lat = JInt 57, lon = JInt 43, weight = 20\<rparr>]"
  have ne: "?bs \<noteq> []" by simp
  have others: "\<forall>j<length ?bs. j \<noteq> 0 \<longrightarrow> weight (?bs ! j) \<le> 60"
    by (simp add: less_Suc_eq)
  have mx: "weight (?bs ! 0) = Max (weight ` set ?bs)" by simp
  have q: "rat_of_int 60 = 2 * rat_of_int (weight (?bs ! 0))" by simp
  have i: "0 < length ?bs" by simp
  note both = heat_max_val_scales [OF ne]
  note scaled = both [THEN conjunct2, THEN spec [of _ 0], THEN spec [of _ 60],
      THEN spec [of _ 2], THEN mp, OF i, THEN mp, OF mx, THEN mp, OF others, THEN mp, OF q]
  from both [THEN conjunct1] scaled show ?thesis by simp
qed

text \<open>Claim C6 as stated has no such condition.  With buildings of four and three floors,
  halving the four floors to two moves the value from \<open>16\<close> to \<open>12\<close>, not to
  \<open>8\<close>: the other building is the maximum now.\<close>

theorem halved_floors_counterexample:
  "parse_geojson_buildings
     (Inr (feature_collection
        [point_feature (JArray [JInt 44, JInt 56]) (JString (ustr ''4'')),
         point_feature (JArray [JInt 43, JInt 57]) (JString (ustr ''3''))]))
     = Inr [\<lparr>lat = JInt 56, lon = JInt 44, weight = 40\<rparr>,
            \<lparr>lat = JInt 57, lon = JInt 43, weight = 30\<rparr>]
   \<and> max_val (hm [\<lparr>lat = JInt 56, lon = JInt 44, weight = 40\<rparr>,
                  \<lparr>lat = JInt 57, lon = JInt 43, weight = 30\<rparr>]) = Some 16
   \<and> parse_geojson_buildings
     (Inr (feature_collection
        [point_feature (JArray [JInt 44, JInt 56]) (JString (ustr ''2'')),
         point_feature (JArray [JInt 43, JInt 57]) (JString (ustr ''3''))]))
     = Inr [\<lparr>lat = JInt 56, lon = JInt 44, weight = 20\<rparr>,
            \<lparr>lat = JInt 57, lon = JInt 43, weight = 30\<rparr>]
   \<and> max_val (hm [\<lparr>lat = JInt 56, lon = JInt 44, weight = 20\<rparr>,
                  \<lparr>lat = JInt 57, lon = JInt 43, weight = 30\<rparr>]) = Some 12
   \<and> (12::rat) \<noteq> (1 / 2) * 16"
  by (simp add: eval_defs hm_def max_weight_def)

section \<open>Claim C7: the features the parser leaves out\<close>

text \<open>Claim C7, as amended.  When the parser returns, every feature whose geometry is
  absent or not of type Point, or is a Point without a \<^verbatim>\<open>coordinates\<close> member,
  contributes nothing to the output, and the length of the output is the number of
  features less the number of these.\<close>

theorem skipped_features_count:
  assumes "parse_geojson_buildings (Inr geojson_data) = Inr out"
  shows "\<exists>features. features_of geojson_data = Inr features
           \<and> (\<forall>f\<in>set features.
                 \<not> geometry_is_point f \<or> point_coordinates f = None \<longrightarrow> emitted f = None)
           \<and> length out
                + length (filter (\<lambda>f. \<not> geometry_is_point f \<or> point_coordinates f = None) features)
               = length features"
proof -
  from assms obtain features where
    fs: "features_of geojson_data = Inr features" and loop: "parse_loop features [] = Inr out"
    using parse_geojson_buildings_Inr by blast
  from parse_loop_Inr [OF loop] have
    out: "out = List.map_filter emitted features"
    and ret: "\<forall>f\<in>set features. \<exists>r. parse_feature f = Inr r" by simp_all
  have skip: "(\<not> geometry_is_point f \<or> point_coordinates f = None) \<longleftrightarrow> emitted f = None"
    if "f \<in> set features" for f
  proof -
    from ret that obtain r where "parse_feature f = Inr r" by blast
    from emitted_None_iff [OF this] point_coordinates_is_point [of f] show ?thesis
      by (cases "point_coordinates f") auto
  qed
  have "filter (\<lambda>f. \<not> geometry_is_point f \<or> point_coordinates f = None) features
          = filter (\<lambda>f. \<not> emitted f \<noteq> None) features"
    by (rule filter_cong [OF refl]) (use skip in auto)
  then have "length out
      + length (filter (\<lambda>f. \<not> geometry_is_point f \<or> point_coordinates f = None) features)
      = length features"
    unfolding out length_map_filter by (simp only: sum_length_filter_compl)
  with fs skip show ?thesis by blast
qed

text \<open>A line, a point and a point without coordinates: one building.\<close>

theorem skipped_features_count_witness:
  "parse_geojson_buildings
     (Inr (feature_collection
        [line_feature, point_feature (JArray [JInt 44, JInt 56]) JNull, point_without_coordinates]))
     = Inr [\<lparr>lat = JInt 56, lon = JInt 44, weight = 10\<rparr>]
   \<and> emitted line_feature = None
   \<and> emitted point_without_coordinates = None
   \<and> length [\<lparr>lat = JInt 56, lon = JInt 44, weight = 10\<rparr>]
       + length (filter (\<lambda>f. \<not> geometry_is_point f \<or> point_coordinates f = None)
           [line_feature, point_feature (JArray [JInt 44, JInt 56]) JNull,
            point_without_coordinates])
     = length [line_feature, point_feature (JArray [JInt 44, JInt 56]) JNull,
               point_without_coordinates]"
proof -
  have p: "parse_geojson_buildings
     (Inr (feature_collection
        [line_feature, point_feature (JArray [JInt 44, JInt 56]) JNull, point_without_coordinates]))
     = Inr [\<lparr>lat = JInt 56, lon = JInt 44, weight = 10\<rparr>]"
    by (simp add: eval_defs line_feature_def point_without_coordinates_def)
  have "point_coordinates line_feature = None"
    "point_coordinates point_without_coordinates = None"
    by (simp_all add: point_coordinates_def line_feature_def point_without_coordinates_def)
  with skipped_features_count [OF p] p show ?thesis
    by (auto simp: features_of_collection)
qed

text \<open>Claim C7 as stated counts only the features without a Point geometry, on every
  collection.  A feature of type Point with no \<^verbatim>\<open>coordinates\<close> is left out as well, so
  one feature, none of them excluded by the claim, gives no building; and on a feature
  whose geometry is \<^verbatim>\<open>null\<close> the parser raises instead of leaving it out.\<close>

theorem point_without_coordinates_counterexample:
  "geometry_is_point point_without_coordinates
   \<and> parse_geojson_buildings (Inr (feature_collection [point_without_coordinates])) = Inr []
   \<and> \<not> geometry_is_point unlocated_feature
   \<and> parse_geojson_buildings (Inr (feature_collection [unlocated_feature])) = Inl AttributeError"
  by (simp add: eval_defs geometry_is_point_def point_without_coordinates_def
      unlocated_feature_def)

section \<open>Claim C8: order and coordinates of the output\<close>

text \<open>Claim C8.  The output of the parser is what the features contribute, one after the
  other in the order of the input; and a Point feature with the coordinates
  \<^verbatim>\<open>[lon, lat]\<close> contributes the entry \<^verbatim>\<open>[lat, lon, weight]\<close>.\<close>

theorem parse_keeps_order_and_swaps:
  assumes "parse_geojson_buildings (Inr geojson_data) = Inr out"
  shows "\<exists>features. features_of geojson_data = Inr features
           \<and> out = List.map_filter emitted features
           \<and> (\<forall>f\<in>set features. \<forall>x y. point_coordinates f = Some (JArray [x, y]) \<longrightarrow>
                 (\<exists>w. emitted f = Some \<lparr>lat = y, lon = x, weight = w\<rparr>))"
proof -
  from assms obtain features where
    fs: "features_of geojson_data = Inr features" and loop: "parse_loop features [] = Inr out"
    using parse_geojson_buildings_Inr by blast
  from parse_loop_Inr [OF loop] have
    out: "out = List.map_filter emitted features"
    and ret: "\<forall>f\<in>set features. \<exists>r. parse_feature f = Inr r" by simp_all
  have "\<exists>w. emitted f = Some \<lparr>lat = y, lon = x, weight = w\<rparr>"
    if "f \<in> set features" and pc: "point_coordinates f = Some (JArray [x, y])" for f x y
  proof -
    from ret that(1) obtain r where r: "parse_feature f = Inr r" by blast
    then show ?thesis
      unfolding emitted_def parse_feature_point [OF pc]
      by (auto simp: py_unpack2_JArray py_bind_eq_Inr)
  qed
  with fs out show ?thesis by blast
qed

text \<open>Two points with a line between them.\<close>

theorem parse_keeps_order_and_swaps_witness:
  "parse_geojson_buildings
     (Inr (feature_collection
        [point_feature (JArray [JInt 44, JInt 56]) (JString (ustr ''3'')),
         line_feature,
         point_feature (JArray [JInt 43, JInt 57]) JNull]))
     = Inr [\<lparr>lat = JInt 56, lon = JInt 44, weight = 30\<rparr>,
            \<lparr>lat = JInt 57, lon = JInt 43, weight = 10\<rparr>]
   \<and> List.map_filter emitted
       [point_feature (JArray [JInt 44, JInt 56]) (JString (ustr ''3'')),
        line_feature,
        point_feature (JArray [JInt 43, JInt 57]) JNull]
     = [\<lparr>lat = JInt 56, lon = JInt 44, weight = 30\<rparr>,
        \<lparr>lat = JInt 57, lon = JInt 43, weight = 10\<rparr>]"
proof -
  have p: "parse_geojson_buildings
     (Inr (feature_collection
        [point_feature (JArray [JInt 44, JInt 56]) (JString (ustr ''3'')),
         line_feature,
         point_feature (JArray [JInt 43, JInt 57]) JNull]))
     = Inr [\<lparr>lat = JInt 56, lon = JInt 44, weight = 30\<rparr>,
            \<lparr>lat = JInt 57, lon = JInt 43, weight = 10\<rparr>]"
    by (simp add: eval_defs line_feature_def)
  from parse_keeps_order_and_swaps [OF p] p show ?thesis
    by (auto simp: features_of_collection)
qed

section \<open>Claim C9: a missing or unreadable table of branches\<close>



section \<open>Claim C10: coordinates that are not a pair\<close>

text \<open>Claim C10.  If some feature of the collection has a Point geometry whose
  \<^verbatim>\<open>coordinates\<close> array does not have exactly two elements, the loop body raises
  \<^verbatim>\<open>ValueError\<close> on it instead of skipping it, and the parser does not return: the
  parser returns only on collections where every such array has two elements.\<close>

theorem point_coordinates_must_be_pair:
  assumes "features_of geojson_data = Inr features"
    and "f \<in> set features"
    and "point_coordinates f = Some (JArray cs)"
    and "length cs \<noteq> 2"
  shows "parse_feature f = Inl ValueError \<and> isl (parse_geojson_buildings (Inr geojson_data))"
proof
  show raised: "parse_feature f = Inl ValueError"
    unfolding parse_feature_point [OF assms(3)]
    by (simp add: py_unpack2_wrong_length [OF assms(4)])
  show "isl (parse_geojson_buildings (Inr geojson_data))"
  proof (cases "parse_geojson_buildings (Inr geojson_data)")
    case (Inl e)
    then show ?thesis by simp
  next
    case (Inr out)
    then obtain fs where "features_of geojson_data = Inr fs" "parse_loop fs [] = Inr out"
      using parse_geojson_buildings_Inr by blast
    with assms(1) have "parse_loop features [] = Inr out" by simp
    from parse_loop_Inr [OF this] assms(2) raised show ?thesis by auto
  qed
qed

text \<open>A point with an altitude.\<close>

theorem point_coordinates_must_be_pair_witness:
  "parse_feature (point_feature (JArray [JInt 44, JInt 56, JInt 120]) (JString (ustr ''3'')))
     = Inl ValueError
   \<and> parse_geojson_buildings
       (Inr (feature_collection
          [point_feature (JArray [JInt 44, JInt 56, JInt 120]) (JString (ustr ''3''))]))
     = Inl ValueError"
proof -
  let ?f = "point_feature (JArray [JInt 44, JInt 56, JInt 120]) (JString (ustr ''3''))"
  have len: "length [JInt 44, JInt 56, JInt 120] \<noteq> 2" by simp
  have mem: "?f \<in> set [?f]" by simp
  from point_coordinates_must_be_pair
    [OF features_of_collection mem point_coordinates_point_feature len]
  show ?thesis by (cases "parse_geojson_buildings (Inr (feature_collection [?f]))")
      (simp_all add: eval_defs)
qed

end
